theory Spec2Isabelle
  imports Main "HOL-Library.Word"
begin

section \<open>Collaborating types of database/puppet.go\<close>

text \<open>
  Go's \<open>int64\<close> and \<open>int8\<close> are two's complement machine integers. The comparisons of the
  source (\<open>puppet.LastActivityTs > signedTs\<close>, \<open>lastSync.Int64 > 0\<close>) are signed,
  written \<open><s\<close> and \<open>\<le>s\<close> on words.
\<close>

type_synonym int64 = "64 word"
type_synonym int8 = "8 word"

text \<open>
  \<open>types.JID\<close> of whatsmeow, as far as this file reads and writes it: the local part
  (\<open>User\<close>) and the domain (\<open>Server\<close>). \<open>types.NewJID(user, server)\<close> builds one from
  the two.
\<close>

record JID =
  User :: string
  Server :: string

definition NewJID :: "string \<Rightarrow> string \<Rightarrow> JID" where
  "NewJID user server = \<lparr>User = user, Server = server\<rparr>"

text \<open>
  Modelled from the spec: the constant \<open>types.DefaultUserServer\<close> (the designated default
  domain) is declared in whatsmeow, not under src/. Only its being one fixed string
  matters below.
\<close>

definition DefaultUserServer :: string where
  "DefaultUserServer = ''s.whatsapp.net''"

text \<open>
  \<open>time.Time\<close>, as an instant: whole seconds relative to the Unix epoch and the
  nanoseconds within the second. The location is left out (\<open>Time.Equal\<close> ignores it too).
  The zero \<open>Time\<close> is January 1, year 1, 00:00:00 UTC, which is 62135596800 seconds
  before the epoch. \<open>t.IsZero()\<close>, \<open>t.Unix()\<close> and \<open>time.Unix(sec, 0)\<close> follow.
\<close>

record Time =
  unixSec :: int64
  nsec :: nat

definition zeroTime :: Time where
  "zeroTime = \<lparr>unixSec = - 62135596800, nsec = 0\<rparr>"

definition Time_IsZero :: "Time \<Rightarrow> bool" where
  "Time_IsZero t = (unixSec t = - 62135596800 \<and> nsec t = 0)"

definition Time_Unix :: "Time \<Rightarrow> int64" where
  "Time_Unix t = unixSec t"

definition time_Unix :: "int64 \<Rightarrow> Time" where
  "time_Unix sec = \<lparr>unixSec = sec, nsec = 0\<rparr>"

text \<open>
  The errors a storage call can return: \<open>sql.ErrNoRows\<close>, which \<open>Scan\<close> tells apart,
  and any other error, carried with its text.
\<close>

datatype error = ErrNoRows | ErrOther string

section \<open>The record\<close>

text \<open>
  \<open>type Puppet struct\<close>. The fields \<open>db\<close> and \<open>log\<close> are handles: the table and the
  emitted log lines are passed and returned explicitly instead. The type \<open>'u\<close> stands for
  \<open>id.ContentURI\<close> of mautrix, whose parser and serialiser are not under src/ and are
  parameters of \<open>Scan\<close>, \<open>Insert\<close> and \<open>Update\<close>. \<open>id.UserID\<close> is a string type.
\<close>

record 'u Puppet =
  JID :: JID
  Avatar :: string
  AvatarURL :: 'u
  AvatarSet :: bool
  Displayname :: string
  NameQuality :: int8
  NameSet :: bool
  LastSync :: Time
  CustomMXID :: string
  AccessToken :: string
  NextBatch :: string
  EnablePresence :: bool
  EnableReceipts :: bool
  FirstActivityTs :: int64
  LastActivityTs :: int64

text \<open>
  The three things the file uses of \<open>id.ContentURI\<close>: its zero value,
  \<open>id.ParseContentURI\<close> (the parsed value it returns; \<open>Scan\<close> discards the error) and
  the method \<open>String()\<close>.
\<close>

record 'u URI_ops =
  zeroURI :: 'u
  ParseContentURI :: "string \<Rightarrow> 'u"
  URI_String :: "'u \<Rightarrow> string"

text \<open>
  \<open>func (pq *PuppetQuery) New() *Puppet\<close>: every field has Go's zero value except the
  two toggles.
\<close>

definition New :: "'u URI_ops \<Rightarrow> 'u Puppet" where
  "New ops =
     \<lparr>JID = \<lparr>User = [], Server = []\<rparr>,
      Avatar = [],
      AvatarURL = zeroURI ops,
      AvatarSet = False,
      Displayname = [],
      NameQuality = 0,
      NameSet = False,
      LastSync = zeroTime,
      CustomMXID = [],
      AccessToken = [],
      NextBatch = [],
      EnablePresence = True,
      EnableReceipts = True,
      FirstActivityTs = 0,
      LastActivityTs = 0\<rparr>"

section \<open>The puppet table\<close>

text \<open>
  One stored row of table \<open>puppet\<close>, column by column in the order of the SELECT lists.
  \<open>None\<close> is SQL NULL.
\<close>

record DBRow =
  c_username :: "string option"
  c_avatar :: "string option"
  c_avatar_url :: "string option"
  c_displayname :: "string option"
  c_name_quality :: "int64 option"
  c_name_set :: "bool option"
  c_avatar_set :: "bool option"
  c_last_sync :: "int64 option"
  c_custom_mxid :: "string option"
  c_access_token :: "string option"
  c_next_batch :: "string option"
  c_enable_presence :: "bool option"
  c_enable_receipts :: "bool option"
  c_first_activity_ts :: "int64 option"
  c_last_activity_ts :: "int64 option"

type_synonym Database = "DBRow list"

text \<open>
  The thirteen values bound to the placeholders of the INSERT and UPDATE statements.
  The driver widens the \<open>int8\<close> name quality to a 64-bit integer.
\<close>

record PuppetArgs =
  a_username :: string
  a_avatar :: string
  a_avatar_url :: string
  a_avatar_set :: bool
  a_displayname :: string
  a_name_quality :: int64
  a_name_set :: bool
  a_last_sync :: int64
  a_custom_mxid :: string
  a_access_token :: string
  a_next_batch :: string
  a_enable_presence :: bool
  a_enable_receipts :: bool

text \<open>The four statements the file passes to \<open>db.Exec\<close>.\<close>

datatype Stmt =
    InsertPuppet PuppetArgs
  | UpdatePuppet PuppetArgs
  | SetLastActivity int64 string
  | SetFirstActivityIfNull int64 string

text \<open>
  Modelled from the spec: the schema of table \<open>puppet\<close> is not under src/. A column that
  the INSERT does not list takes its default, which is NULL: the spec gives
  \<open>first_activity_ts\<close> a NULL sentinel for unset, and \<open>Scan\<close> reads both activity columns
  through nullable integers.
\<close>

definition row_of_args :: "PuppetArgs \<Rightarrow> DBRow" where
  "row_of_args a =
     \<lparr>c_username = Some (a_username a),
      c_avatar = Some (a_avatar a),
      c_avatar_url = Some (a_avatar_url a),
      c_displayname = Some (a_displayname a),
      c_name_quality = Some (a_name_quality a),
      c_name_set = Some (a_name_set a),
      c_avatar_set = Some (a_avatar_set a),
      c_last_sync = Some (a_last_sync a),
      c_custom_mxid = Some (a_custom_mxid a),
      c_access_token = Some (a_access_token a),
      c_next_batch = Some (a_next_batch a),
      c_enable_presence = Some (a_enable_presence a),
      c_enable_receipts = Some (a_enable_receipts a),
      c_first_activity_ts = None,
      c_last_activity_ts = None\<rparr>"

definition update_row :: "PuppetArgs \<Rightarrow> DBRow \<Rightarrow> DBRow" where
  "update_row a r =
     r\<lparr>c_displayname := Some (a_displayname a),
       c_name_quality := Some (a_name_quality a),
       c_name_set := Some (a_name_set a),
       c_avatar := Some (a_avatar a),
       c_avatar_url := Some (a_avatar_url a),
       c_avatar_set := Some (a_avatar_set a),
       c_last_sync := Some (a_last_sync a),
       c_custom_mxid := Some (a_custom_mxid a),
       c_access_token := Some (a_access_token a),
       c_next_batch := Some (a_next_batch a),
       c_enable_presence := Some (a_enable_presence a),
       c_enable_receipts := Some (a_enable_receipts a)\<rparr>"

text \<open>
  What each statement does to the table when the storage executes it. An UPDATE changes
  every row its WHERE clause selects; a NULL username equals nothing.
\<close>

fun apply_stmt :: "Stmt \<Rightarrow> Database \<Rightarrow> Database" where
  "apply_stmt (InsertPuppet a) tbl = tbl @ [row_of_args a]"
| "apply_stmt (UpdatePuppet a) tbl =
     map (\<lambda>r. if c_username r = Some (a_username a) then update_row a r else r) tbl"
| "apply_stmt (SetLastActivity ts u) tbl =
     map (\<lambda>r. if c_username r = Some u then r\<lparr>c_last_activity_ts := Some ts\<rparr> else r) tbl"
| "apply_stmt (SetFirstActivityIfNull ts u) tbl =
     map (\<lambda>r. if c_username r = Some u \<and> c_first_activity_ts r = None
               then r\<lparr>c_first_activity_ts := Some ts\<rparr> else r) tbl"

text \<open>
  \<open>db.Exec\<close>: the storage either fails the statement with an error and changes nothing
  (a constraint violation, a lost connection), or executes it. Which of the two happens is
  the storage's choice, given as the first argument.
\<close>

fun db_Exec :: "error option \<Rightarrow> Stmt \<Rightarrow> Database \<Rightarrow> Database \<times> error option" where
  "db_Exec (Some e) stmt tbl = (tbl, Some e)"
| "db_Exec None stmt tbl = (apply_stmt stmt tbl, None)"

section \<open>Observable effects\<close>

text \<open>The log lines of the file, by call site, with the values they format.\<close>

datatype LogLine =
    Error_ScanFailed error
  | Warn_NotInserting JID
  | Warn_InsertFailed JID error
  | Warn_UpdateFailed JID error
  | Debug_UpdatingActivity JID int64
  | Warn_LastActivityFailed JID error
  | Warn_FirstActivityFailed JID error

text \<open>What a method does besides changing its receiver, in program order.\<close>

datatype Effect = Logged LogLine | Executed Stmt

section \<open>UpdateActivityTs\<close>

text \<open>
  \<open>func (puppet *Puppet) UpdateActivityTs(ts int64)\<close>. The result is the receiver after
  the call, the table after the call and the effects. \<open>f1\<close> and \<open>f2\<close> are the storage's
  choices for the two statements.
\<close>

definition UpdateActivityTs ::
  "'u Puppet \<Rightarrow> int64 \<Rightarrow> error option \<Rightarrow> error option \<Rightarrow> Database
     \<Rightarrow> 'u Puppet \<times> Database \<times> Effect list" where
  "UpdateActivityTs puppet ts f1 f2 db =
     (let signedTs = ts in
      if signedTs <s LastActivityTs puppet then (puppet, db, [])
      else
        let puppet1 = puppet\<lparr>LastActivityTs := signedTs\<rparr>;
            stmt1 = SetLastActivity (LastActivityTs puppet1) (User (JID puppet1));
            (db1, err1) = db_Exec f1 stmt1 db;
            eff1 = [Logged (Debug_UpdatingActivity (JID puppet) signedTs), Executed stmt1]
                   @ (case err1 of None \<Rightarrow> []
                      | Some e \<Rightarrow> [Logged (Warn_LastActivityFailed (JID puppet1) e)])
        in if FirstActivityTs puppet1 = 0 then
             let puppet2 = puppet1\<lparr>FirstActivityTs := signedTs\<rparr>;
                 stmt2 = SetFirstActivityIfNull (FirstActivityTs puppet2) (User (JID puppet2));
                 (db2, err2) = db_Exec f2 stmt2 db1
             in (puppet2, db2,
                 eff1 @ [Executed stmt2]
                 @ (case err2 of None \<Rightarrow> []
                    | Some e \<Rightarrow> [Logged (Warn_FirstActivityFailed (JID puppet2) e)]))
           else (puppet1, db1, eff1))"

text \<open>
  A sequence of \<open>UpdateActivityTs\<close> calls on one record, each with its timestamp and the
  storage's two choices, run one after the other.
\<close>

fun UpdateActivityTs_calls ::
  "(int64 \<times> error option \<times> error option) list \<Rightarrow> 'u Puppet \<Rightarrow> Database
     \<Rightarrow> 'u Puppet \<times> Database \<times> Effect list" where
  "UpdateActivityTs_calls [] puppet db = (puppet, db, [])"
| "UpdateActivityTs_calls ((ts, f1, f2) # cs) puppet db =
     (case UpdateActivityTs puppet ts f1 f2 db of
        (puppet', db', eff) \<Rightarrow>
          (case UpdateActivityTs_calls cs puppet' db' of
             (puppet'', db'', eff') \<Rightarrow> (puppet'', db'', eff @ eff')))"

text \<open>
  The conditional first-activity writes among some effects, each with its timestamp and
  the username it is keyed by, in order.
\<close>

fun first_activity_writes :: "Effect list \<Rightarrow> (int64 \<times> string) list" where
  "first_activity_writes [] = []"
| "first_activity_writes (Executed (SetFirstActivityIfNull ts u) # es) =
     (ts, u) # first_activity_writes es"
| "first_activity_writes (e # es) = first_activity_writes es"

section \<open>Scan\<close>

text \<open>
  \<open>sql.NullString\<close>, \<open>sql.NullInt64\<close> and \<open>sql.NullBool\<close> after scanning a column: the
  fields \<open>String\<close>, \<open>Int64\<close> and \<open>Bool\<close> hold the typed zero value when the column is NULL.
\<close>

definition NullString_String :: "string option \<Rightarrow> string" where
  "NullString_String v = (case v of None \<Rightarrow> [] | Some s \<Rightarrow> s)"

definition NullInt64_Int64 :: "int64 option \<Rightarrow> int64" where
  "NullInt64_Int64 v = (case v of None \<Rightarrow> 0 | Some n \<Rightarrow> n)"

definition NullBool_Bool :: "bool option \<Rightarrow> bool" where
  "NullBool_Bool v = (case v of None \<Rightarrow> False | Some b \<Rightarrow> b)"

text \<open>
  A \<open>dbutil.Scannable\<close>: what \<open>row.Scan\<close> will find, either an error of the storage
  (\<open>sql.ErrNoRows\<close> when the query matched nothing) or a row.
\<close>

datatype Scannable = RowErr error | RowData DBRow

text \<open>
  \<open>row.Scan(&username, &avatar, ...)\<close>. \<open>username\<close> is a plain \<open>string\<close>, which cannot
  take NULL: that row fails to decode. The other fourteen destinations are nullable
  holders and take any value of their column.
\<close>

fun row_Scan :: "Scannable \<Rightarrow> error + string \<times> DBRow" where
  "row_Scan (RowErr e) = Inl e"
| "row_Scan (RowData r) =
     (case c_username r of
        None \<Rightarrow> Inl (ErrOther ''converting NULL to string is unsupported'')
      | Some username \<Rightarrow> Inr (username, r))"

text \<open>
  \<open>func (puppet *Puppet) Scan(row dbutil.Scannable) *Puppet\<close>. The result is the receiver
  after the call, the returned pointer (\<open>None\<close> is nil, \<open>Some\<close> the receiver itself) and
  the effects. \<open>int8(quality.Int64)\<close> keeps the low eight bits.
\<close>

definition Scan ::
  "'u URI_ops \<Rightarrow> 'u Puppet \<Rightarrow> Scannable \<Rightarrow> 'u Puppet \<times> 'u Puppet option \<times> Effect list" where
  "Scan ops puppet row =
     (case row_Scan row of
        Inl err \<Rightarrow>
          (puppet, None, if err \<noteq> ErrNoRows then [Logged (Error_ScanFailed err)] else [])
      | Inr (username, r) \<Rightarrow>
          (let puppet' = puppet
                 \<lparr>JID := NewJID username DefaultUserServer,
                  Displayname := NullString_String (c_displayname r),
                  Avatar := NullString_String (c_avatar r),
                  AvatarURL := ParseContentURI ops (NullString_String (c_avatar_url r)),
                  NameQuality := ucast (NullInt64_Int64 (c_name_quality r)),
                  NameSet := NullBool_Bool (c_name_set r),
                  AvatarSet := NullBool_Bool (c_avatar_set r),
                  LastSync :=
                    (if 0 <s NullInt64_Int64 (c_last_sync r)
                     then time_Unix (NullInt64_Int64 (c_last_sync r))
                     else LastSync puppet),
                  CustomMXID := NullString_String (c_custom_mxid r),
                  AccessToken := NullString_String (c_access_token r),
                  NextBatch := NullString_String (c_next_batch r),
                  EnablePresence := NullBool_Bool (c_enable_presence r),
                  EnableReceipts := NullBool_Bool (c_enable_receipts r),
                  FirstActivityTs := NullInt64_Int64 (c_first_activity_ts r),
                  LastActivityTs := NullInt64_Int64 (c_last_activity_ts r)\<rparr>
           in (puppet', Some puppet', [])))"

section \<open>The queries\<close>

text \<open>
  How the storage answers a query: it runs it, fails it with an error, or hands back a nil
  handle without an error (the case the source checks with \<open>rows == nil\<close> and
  \<open>row == nil\<close>).
\<close>

datatype QFault = NoFault | QueryError error | NilResult

datatype Rows = QueryFailed error | NilRows | RowsOf "Scannable list"

text \<open>
  \<open>db.Query\<close> with a WHERE clause \<open>sel\<close>: the selected rows in table order. (The storage
  may return them in any order; the table order stands for the one it picks.)
\<close>

fun db_Query :: "QFault \<Rightarrow> (DBRow \<Rightarrow> bool) \<Rightarrow> Database \<Rightarrow> Rows" where
  "db_Query (QueryError e) sel tbl = QueryFailed e"
| "db_Query NilResult sel tbl = NilRows"
| "db_Query NoFault sel tbl = RowsOf (map RowData (filter sel tbl))"

text \<open>
  \<open>db.QueryRow\<close>: a failure of the query is kept in the row handle and comes out of
  \<open>row.Scan\<close>, as does \<open>sql.ErrNoRows\<close> when nothing is selected; otherwise the handle
  holds the first selected row.
\<close>

fun db_QueryRow :: "QFault \<Rightarrow> (DBRow \<Rightarrow> bool) \<Rightarrow> Database \<Rightarrow> Scannable option" where
  "db_QueryRow NilResult sel tbl = None"
| "db_QueryRow (QueryError e) sel tbl = Some (RowErr e)"
| "db_QueryRow NoFault sel tbl =
     (case filter sel tbl of [] \<Rightarrow> Some (RowErr ErrNoRows) | r # _ \<Rightarrow> Some (RowData r))"

text \<open>
  The loop \<open>for rows.Next() { puppets = append(puppets, pq.New().Scan(rows)) }\<close> of
  \<open>GetAll\<close> and \<open>GetAllWithCustomMXID\<close>, with the slice built so far and the effects so far.
\<close>

fun scan_rows ::
  "'u URI_ops \<Rightarrow> Scannable list \<Rightarrow> 'u Puppet option list \<Rightarrow> Effect list
     \<Rightarrow> 'u Puppet option list \<times> Effect list" where
  "scan_rows ops [] puppets eff = (puppets, eff)"
| "scan_rows ops (row # rows) puppets eff =
     (case Scan ops (New ops) row of
        (_, res, e) \<Rightarrow> scan_rows ops rows (puppets @ [res]) (eff @ e))"

text \<open>\<open>func (pq *PuppetQuery) GetAll() (puppets []*Puppet)\<close>: no WHERE clause.\<close>

definition GetAll ::
  "'u URI_ops \<Rightarrow> QFault \<Rightarrow> Database \<Rightarrow> 'u Puppet option list \<times> Effect list" where
  "GetAll ops fault db =
     (case db_Query fault (\<lambda>r. True) db of
        QueryFailed e \<Rightarrow> ([], [])
      | NilRows \<Rightarrow> ([], [])
      | RowsOf rows \<Rightarrow> scan_rows ops rows [] [])"

text \<open>
  \<open>WHERE custom_mxid<>''\<close>: in SQL a NULL compared with anything is not true, so a row
  with a NULL \<open>custom_mxid\<close> is not selected.
\<close>

definition custom_mxid_nonempty :: "DBRow \<Rightarrow> bool" where
  "custom_mxid_nonempty r = (case c_custom_mxid r of None \<Rightarrow> False | Some s \<Rightarrow> s \<noteq> [])"

text \<open>\<open>func (pq *PuppetQuery) GetAllWithCustomMXID() (puppets []*Puppet)\<close>.\<close>

definition GetAllWithCustomMXID ::
  "'u URI_ops \<Rightarrow> QFault \<Rightarrow> Database \<Rightarrow> 'u Puppet option list \<times> Effect list" where
  "GetAllWithCustomMXID ops fault db =
     (case db_Query fault custom_mxid_nonempty db of
        QueryFailed e \<Rightarrow> ([], [])
      | NilRows \<Rightarrow> ([], [])
      | RowsOf rows \<Rightarrow> scan_rows ops rows [] [])"

text \<open>\<open>func (pq *PuppetQuery) Get(jid types.JID) *Puppet\<close>: \<open>WHERE username=$1\<close>.\<close>

definition Get ::
  "'u URI_ops \<Rightarrow> QFault \<Rightarrow> Database \<Rightarrow> JID \<Rightarrow> 'u Puppet option \<times> Effect list" where
  "Get ops fault db jid =
     (case db_QueryRow fault (\<lambda>r. c_username r = Some (User jid)) db of
        None \<Rightarrow> (None, [])
      | Some row \<Rightarrow> (case Scan ops (New ops) row of (_, res, eff) \<Rightarrow> (res, eff)))"

text \<open>What the loop of \<open>GetAll\<close> appends for one stored row.\<close>

definition decode_row :: "'u URI_ops \<Rightarrow> DBRow \<Rightarrow> 'u Puppet option" where
  "decode_row ops r = fst (snd (Scan ops (New ops) (RowData r)))"

text \<open>The non-nil entries of a result slice, in order.\<close>

fun records :: "'a option list \<Rightarrow> 'a list" where
  "records [] = []"
| "records (None # xs) = records xs"
| "records (Some x # xs) = x # records xs"

section \<open>Insert and Update\<close>

text \<open>
  \<open>var lastSyncTs int64; if !puppet.LastSync.IsZero() { lastSyncTs = puppet.LastSync.Unix() }\<close>,
  the same in \<open>Insert\<close> and \<open>Update\<close>.
\<close>

definition lastSyncTs :: "Time \<Rightarrow> int64" where
  "lastSyncTs t = (if \<not> Time_IsZero t then Time_Unix t else 0)"

text \<open>
  The values \<open>Insert\<close> and \<open>Update\<close> bind: both pass the same thirteen expressions, in the
  order of their own placeholders.
\<close>

definition puppet_args :: "'u URI_ops \<Rightarrow> 'u Puppet \<Rightarrow> PuppetArgs" where
  "puppet_args ops puppet =
     \<lparr>a_username = User (JID puppet),
      a_avatar = Avatar puppet,
      a_avatar_url = URI_String ops (AvatarURL puppet),
      a_avatar_set = AvatarSet puppet,
      a_displayname = Displayname puppet,
      a_name_quality = scast (NameQuality puppet),
      a_name_set = NameSet puppet,
      a_last_sync = lastSyncTs (LastSync puppet),
      a_custom_mxid = CustomMXID puppet,
      a_access_token = AccessToken puppet,
      a_next_batch = NextBatch puppet,
      a_enable_presence = EnablePresence puppet,
      a_enable_receipts = EnableReceipts puppet\<rparr>"

text \<open>
  \<open>func (puppet *Puppet) Insert()\<close>. The result is the receiver after the call, the table
  after the call and the effects; \<open>f\<close> is the storage's choice for the statement.
\<close>

definition Insert ::
  "'u URI_ops \<Rightarrow> 'u Puppet \<Rightarrow> error option \<Rightarrow> Database
     \<Rightarrow> 'u Puppet \<times> Database \<times> Effect list" where
  "Insert ops puppet f db =
     (if Server (JID puppet) \<noteq> DefaultUserServer
      then (puppet, db, [Logged (Warn_NotInserting (JID puppet))])
      else
        let stmt = InsertPuppet (puppet_args ops puppet);
            (db', err) = db_Exec f stmt db
        in (puppet, db',
            [Executed stmt]
            @ (case err of None \<Rightarrow> []
               | Some e \<Rightarrow> [Logged (Warn_InsertFailed (JID puppet) e)])))"

text \<open>\<open>func (puppet *Puppet) Update()\<close>.\<close>

definition Update ::
  "'u URI_ops \<Rightarrow> 'u Puppet \<Rightarrow> error option \<Rightarrow> Database
     \<Rightarrow> 'u Puppet \<times> Database \<times> Effect list" where
  "Update ops puppet f db =
     (let stmt = UpdatePuppet (puppet_args ops puppet);
          (db', err) = db_Exec f stmt db
      in (puppet, db',
          [Executed stmt]
          @ (case err of None \<Rightarrow> []
             | Some e \<Rightarrow> [Logged (Warn_UpdateFailed (JID puppet) e)])))"

section \<open>Concrete values for evaluation\<close>

text \<open>
  A content URI kept as its own serialisation, with the empty string as the zero URI;
  and a fresh record for the identifier \<open>1234567890\<close> in the default domain.
\<close>

definition plain_uri :: "string URI_ops" where
  "plain_uri = \<lparr>zeroURI = [], ParseContentURI = (\<lambda>s. s), URI_String = (\<lambda>u. u)\<rparr>"

definition puppet0 :: "string Puppet" where
  "puppet0 = (New plain_uri)\<lparr>JID := NewJID ''1234567890'' DefaultUserServer\<rparr>"

text \<open>
  A row with every column NULL, and a table of three rows: one with a NULL username and a
  linked account, one with neither a linked account nor anything else, one with a linked
  account.
\<close>

definition null_row :: DBRow where
  "null_row =
     \<lparr>c_username = None, c_avatar = None, c_avatar_url = None, c_displayname = None,
      c_name_quality = None, c_name_set = None, c_avatar_set = None, c_last_sync = None,
      c_custom_mxid = None, c_access_token = None, c_next_batch = None,
      c_enable_presence = None, c_enable_receipts = None, c_first_activity_ts = None,
      c_last_activity_ts = None\<rparr>"

definition table0 :: Database where
  "table0 =
     [null_row\<lparr>c_custom_mxid := Some ''@a:example.org''\<rparr>,
      null_row\<lparr>c_username := Some ''111''\<rparr>,
      null_row\<lparr>c_username := Some ''222'', c_custom_mxid := Some ''@b:example.org''\<rparr>]"

text \<open>
  The same record with an activity window in memory, as after \<open>UpdateActivityTs(1000)\<close>;
  and one with a display name, a negative name quality and a last sync.
\<close>

definition puppet_active :: "string Puppet" where
  "puppet_active = puppet0\<lparr>FirstActivityTs := 1000, LastActivityTs := 1000\<rparr>"

definition puppet_alice :: "string Puppet" where
  "puppet_alice = puppet0\<lparr>Displayname := ''Alice'', NameQuality := - 1,
                     LastSync := time_Unix 1700000000\<rparr>"

section \<open>Properties of UpdateActivityTs\<close>

lemma UpdateActivityTs_LastActivityTs:
  "LastActivityTs (fst (UpdateActivityTs puppet ts f1 f2 db)) =
     (if ts <s LastActivityTs puppet then LastActivityTs puppet else ts)"
  by (simp add: UpdateActivityTs_def Let_def split: prod.splits)

lemma UpdateActivityTs_mono:
  "LastActivityTs puppet \<le>s LastActivityTs (fst (UpdateActivityTs puppet ts f1 f2 db))"
  by (simp add: UpdateActivityTs_LastActivityTs signed.not_less)

text \<open>
  C3. Over any sequence of \<open>UpdateActivityTs\<close> calls on a record, \<open>LastActivityTs\<close> never
  decreases (as a signed 64-bit integer): it is at least its starting value after a single
  call, and after every sequence of calls, whatever timestamps are supplied and whether or
  not the storage writes fail.
\<close>

theorem LastActivityTs_monotone:
  "LastActivityTs puppet \<le>s LastActivityTs (fst (UpdateActivityTs puppet ts f1 f2 db)) \<and>
   LastActivityTs puppet \<le>s LastActivityTs (fst (UpdateActivityTs_calls cs puppet db))"
proof
  show "LastActivityTs puppet \<le>s LastActivityTs (fst (UpdateActivityTs puppet ts f1 f2 db))"
    by (rule UpdateActivityTs_mono)
next
  show "LastActivityTs puppet \<le>s LastActivityTs (fst (UpdateActivityTs_calls cs puppet db))"
  proof (induction cs arbitrary: puppet db)
    case Nil
    show ?case by simp
  next
    case (Cons c cs)
    obtain ts f1 f2 where c: "c = (ts, f1, f2)" by (cases c)
    obtain p' db' eff where step: "UpdateActivityTs puppet ts f1 f2 db = (p', db', eff)"
      by (cases "UpdateActivityTs puppet ts f1 f2 db")
    have "LastActivityTs puppet \<le>s LastActivityTs p'"
      using UpdateActivityTs_mono [of puppet ts f1 f2 db] step by simp
    moreover have "LastActivityTs p' \<le>s LastActivityTs (fst (UpdateActivityTs_calls cs p' db'))"
      by (rule Cons.IH)
    ultimately show ?case
      using c step by (auto split: prod.splits intro: signed.order_trans)
  qed
qed

text \<open>
  C1 (as amended). If the supplied timestamp is less than the record's current
  \<open>LastActivityTs\<close>, \<open>UpdateActivityTs\<close> returns at once: the record and the table are
  unchanged and there is no effect at all, neither a log line nor a statement.
\<close>

theorem UpdateActivityTs_stale_noop:
  assumes "ts <s LastActivityTs puppet"
  shows "UpdateActivityTs puppet ts f1 f2 db = (puppet, db, [])"
  using assms by (simp add: UpdateActivityTs_def)

theorem UpdateActivityTs_stale_noop_witness:
  "(500 :: int64) <s LastActivityTs (puppet0\<lparr>LastActivityTs := 1000\<rparr>) \<and>
   UpdateActivityTs (puppet0\<lparr>LastActivityTs := 1000\<rparr>) 500 None None []
     = (puppet0\<lparr>LastActivityTs := 1000\<rparr>, [], [])"
proof -
  have h: "(500 :: int64) <s LastActivityTs (puppet0\<lparr>LastActivityTs := 1000\<rparr>)"
    by (simp add: word_sless_alt)
  show ?thesis using h UpdateActivityTs_stale_noop [OF h] by simp
qed

text \<open>
  C1 as stated fails when the timestamp equals \<open>LastActivityTs\<close>: the guard of the source
  is \<open>puppet.LastActivityTs > signedTs\<close>. On a fresh record, whose \<open>LastActivityTs\<close> is 0,
  the call with timestamp 0 logs, issues both statements and changes the stored row.
\<close>

theorem UpdateActivityTs_equal_counterexample:
  "(0 :: int64) \<le>s LastActivityTs puppet0 \<and>
   UpdateActivityTs puppet0 0 None None [row_of_args (puppet_args plain_uri puppet0)] =
     (puppet0,
      [(row_of_args (puppet_args plain_uri puppet0))
         \<lparr>c_first_activity_ts := Some 0, c_last_activity_ts := Some 0\<rparr>],
      [Logged (Debug_UpdatingActivity (JID puppet0) 0),
       Executed (SetLastActivity 0 ''1234567890''),
       Executed (SetFirstActivityIfNull 0 ''1234567890'')])"
  by (simp add: UpdateActivityTs_def puppet0_def New_def NewJID_def row_of_args_def
      puppet_args_def)

subsection \<open>FirstActivityTs\<close>

lemma first_activity_writes_append:
  "first_activity_writes (xs @ ys) = first_activity_writes xs @ first_activity_writes ys"
  by (induction xs rule: first_activity_writes.induct) simp_all

lemma UpdateActivityTs_first_kept:
  assumes "FirstActivityTs puppet \<noteq> 0"
  shows "FirstActivityTs (fst (UpdateActivityTs puppet ts f1 f2 db)) = FirstActivityTs puppet"
    and "first_activity_writes (snd (snd (UpdateActivityTs puppet ts f1 f2 db))) = []"
  using assms
  by (auto simp add: UpdateActivityTs_def Let_def first_activity_writes_append
      split: prod.splits option.splits)

lemma UpdateActivityTs_calls_first_kept:
  assumes "FirstActivityTs puppet \<noteq> 0"
  shows "FirstActivityTs (fst (UpdateActivityTs_calls cs puppet db)) = FirstActivityTs puppet \<and>
         first_activity_writes (snd (snd (UpdateActivityTs_calls cs puppet db))) = []"
  using assms
proof (induction cs arbitrary: puppet db)
  case Nil
  show ?case by simp
next
  case (Cons c cs)
  obtain ts f1 f2 where c: "c = (ts, f1, f2)" by (cases c)
  obtain p' db' eff where step: "UpdateActivityTs puppet ts f1 f2 db = (p', db', eff)"
    by (cases "UpdateActivityTs puppet ts f1 f2 db")
  have p': "FirstActivityTs p' = FirstActivityTs puppet" and eff: "first_activity_writes eff = []"
    using UpdateActivityTs_first_kept [OF Cons.prems, of ts f1 f2 db] step by simp_all
  then have "FirstActivityTs p' \<noteq> 0" using Cons.prems by simp
  from Cons.IH [OF this, of db'] p' eff show ?case
    using c step by (auto simp add: first_activity_writes_append split: prod.splits)
qed

lemma UpdateActivityTs_first_set:
  assumes "FirstActivityTs puppet = 0" and "\<not> ts <s LastActivityTs puppet"
  shows "FirstActivityTs (fst (UpdateActivityTs puppet ts f1 f2 db)) = ts"
    and "first_activity_writes (snd (snd (UpdateActivityTs puppet ts f1 f2 db))) =
           [(ts, User (JID puppet))]"
  using assms
  by (auto simp add: UpdateActivityTs_def Let_def first_activity_writes_append
      split: prod.splits option.splits)

text \<open>
  C2 (as amended). On a record whose \<open>FirstActivityTs\<close> is unset (0), the first
  \<open>UpdateActivityTs\<close> call that passes the guard, with a timestamp other than 0, sets
  \<open>FirstActivityTs\<close> to that timestamp in memory and issues exactly one conditional
  first-activity write, for that timestamp and the record's username. After every
  sequence of later calls, whatever their timestamps and whether or not writes fail,
  \<open>FirstActivityTs\<close> still has that value, and none of them issues a first-activity write.
\<close>

theorem FirstActivityTs_set_once:
  assumes "FirstActivityTs puppet = 0" and "\<not> ts <s LastActivityTs puppet" and "ts \<noteq> 0"
    and "UpdateActivityTs puppet ts f1 f2 db = (puppet', db', eff)"
    and "UpdateActivityTs_calls cs puppet' db' = (puppet'', db'', eff')"
  shows "FirstActivityTs puppet' = ts \<and>
         first_activity_writes eff = [(ts, User (JID puppet))] \<and>
         FirstActivityTs puppet'' = ts \<and>
         first_activity_writes eff' = []"
proof -
  have a: "FirstActivityTs puppet' = ts"
    and b: "first_activity_writes eff = [(ts, User (JID puppet))]"
    using UpdateActivityTs_first_set [OF assms(1,2), of f1 f2 db] assms(4) by simp_all
  have "FirstActivityTs puppet' \<noteq> 0" using a assms(3) by simp
  from UpdateActivityTs_calls_first_kept [OF this, of cs db'] assms(5) a b
  show ?thesis by simp
qed

theorem FirstActivityTs_set_once_witness:
  "FirstActivityTs puppet0 = 0 \<and> \<not> (1000 :: int64) <s LastActivityTs puppet0 \<and>
   (1000 :: int64) \<noteq> 0 \<and>
   UpdateActivityTs puppet0 1000 None None [row_of_args (puppet_args plain_uri puppet0)] =
     (puppet0\<lparr>FirstActivityTs := 1000, LastActivityTs := 1000\<rparr>,
      [(row_of_args (puppet_args plain_uri puppet0))
          \<lparr>c_first_activity_ts := Some 1000, c_last_activity_ts := Some 1000\<rparr>],
      [Logged (Debug_UpdatingActivity (JID puppet0) 1000),
       Executed (SetLastActivity 1000 ''1234567890''),
       Executed (SetFirstActivityIfNull 1000 ''1234567890'')]) \<and>
   UpdateActivityTs_calls [(500, None, None), (2000, None, None)]
       (puppet0\<lparr>FirstActivityTs := 1000, LastActivityTs := 1000\<rparr>)
       [(row_of_args (puppet_args plain_uri puppet0))
          \<lparr>c_first_activity_ts := Some 1000, c_last_activity_ts := Some 1000\<rparr>] =
     (puppet0\<lparr>FirstActivityTs := 1000, LastActivityTs := 2000\<rparr>,
      [(row_of_args (puppet_args plain_uri puppet0))
          \<lparr>c_first_activity_ts := Some 1000, c_last_activity_ts := Some 2000\<rparr>],
      [Logged (Debug_UpdatingActivity (JID puppet0) 2000),
       Executed (SetLastActivity 2000 ''1234567890'')]) \<and>
   FirstActivityTs (puppet0\<lparr>FirstActivityTs := 1000, LastActivityTs := 2000\<rparr>) = 1000 \<and>
   first_activity_writes [Logged (Debug_UpdatingActivity (JID puppet0) 2000),
       Executed (SetLastActivity 2000 ''1234567890'')] = []"
proof -
  have h1: "FirstActivityTs puppet0 = 0" by (simp add: puppet0_def New_def)
  have h2: "\<not> (1000 :: int64) <s LastActivityTs puppet0"
    by (simp add: puppet0_def New_def word_sless_alt)
  have h3: "(1000 :: int64) \<noteq> 0" by simp
  have h4: "UpdateActivityTs puppet0 1000 None None [row_of_args (puppet_args plain_uri puppet0)] =
     (puppet0\<lparr>FirstActivityTs := 1000, LastActivityTs := 1000\<rparr>,
      [(row_of_args (puppet_args plain_uri puppet0))
          \<lparr>c_first_activity_ts := Some 1000, c_last_activity_ts := Some 1000\<rparr>],
      [Logged (Debug_UpdatingActivity (JID puppet0) 1000),
       Executed (SetLastActivity 1000 ''1234567890''),
       Executed (SetFirstActivityIfNull 1000 ''1234567890'')])"
    by (simp add: UpdateActivityTs_def puppet0_def New_def NewJID_def row_of_args_def
        puppet_args_def word_sless_alt)
  have h5: "UpdateActivityTs_calls [(500, None, None), (2000, None, None)]
       (puppet0\<lparr>FirstActivityTs := 1000, LastActivityTs := 1000\<rparr>)
       [(row_of_args (puppet_args plain_uri puppet0))
          \<lparr>c_first_activity_ts := Some 1000, c_last_activity_ts := Some 1000\<rparr>] =
     (puppet0\<lparr>FirstActivityTs := 1000, LastActivityTs := 2000\<rparr>,
      [(row_of_args (puppet_args plain_uri puppet0))
          \<lparr>c_first_activity_ts := Some 1000, c_last_activity_ts := Some 2000\<rparr>],
      [Logged (Debug_UpdatingActivity (JID puppet0) 2000),
       Executed (SetLastActivity 2000 ''1234567890'')])"
    by (simp add: UpdateActivityTs_def puppet0_def New_def NewJID_def row_of_args_def
        puppet_args_def word_sless_alt)
  show ?thesis
    using h1 h2 h3 h4 h5 FirstActivityTs_set_once [OF h1 h2 h3 h4 h5] by simp
qed

text \<open>
  C2 as stated fails when the first timestamp is 0, the value that also means unset: on a
  fresh record the call with timestamp 0 passes the guard and sets \<open>FirstActivityTs\<close> to 0,
  and the next call, with timestamp 5, sets it again, to 5.
\<close>

theorem FirstActivityTs_zero_counterexample:
  "FirstActivityTs puppet0 = 0 \<and> \<not> (0 :: int64) <s LastActivityTs puppet0 \<and>
   FirstActivityTs (fst (UpdateActivityTs puppet0 0 None None [])) = 0 \<and>
   FirstActivityTs (fst (UpdateActivityTs_calls [(5, None, None)]
       (fst (UpdateActivityTs puppet0 0 None None []))
       (fst (snd (UpdateActivityTs puppet0 0 None None []))))) = 5"
  by (simp add: UpdateActivityTs_def puppet0_def New_def NewJID_def word_sless_alt)

section \<open>Properties of Insert\<close>

text \<open>
  C4. For a record whose \<open>JID\<close> domain is not the default domain, \<open>Insert\<close> issues no
  statement and returns normally: its only effect is one warning, and the record and the
  table are what they were.
\<close>

theorem Insert_foreign_domain_noop:
  assumes "Server (JID puppet) \<noteq> DefaultUserServer"
  shows "Insert ops puppet f db = (puppet, db, [Logged (Warn_NotInserting (JID puppet))])"
  using assms by (simp add: Insert_def)

theorem Insert_foreign_domain_noop_witness:
  "Server (JID (puppet0\<lparr>JID := NewJID ''1234567890'' ''g.us''\<rparr>)) \<noteq> DefaultUserServer \<and>
   Insert plain_uri (puppet0\<lparr>JID := NewJID ''1234567890'' ''g.us''\<rparr>) None [] =
     (puppet0\<lparr>JID := NewJID ''1234567890'' ''g.us''\<rparr>, [],
      [Logged (Warn_NotInserting \<lparr>User = ''1234567890'', Server = ''g.us''\<rparr>)])"
proof -
  have h: "Server (JID (puppet0\<lparr>JID := NewJID ''1234567890'' ''g.us''\<rparr>)) \<noteq> DefaultUserServer"
    by (simp add: NewJID_def DefaultUserServer_def)
  show ?thesis
    using h Insert_foreign_domain_noop [OF h, of plain_uri None "[]"]
    by (simp add: NewJID_def)
qed

section \<open>Properties of Scan\<close>

text \<open>
  C10. When the decode of the row fails, whatever the error (\<open>sql.ErrNoRows\<close> included),
  \<open>Scan\<close> returns nil and the receiver keeps every field; the only effect is the error
  line, and there is none for \<open>sql.ErrNoRows\<close>.
\<close>

theorem Scan_failure_atomic:
  assumes "row_Scan row = Inl err"
  shows "Scan ops puppet row =
           (puppet, None, if err \<noteq> ErrNoRows then [Logged (Error_ScanFailed err)] else [])"
  using assms by (simp add: Scan_def)

theorem Scan_failure_atomic_witness:
  "row_Scan (RowErr ErrNoRows) = Inl ErrNoRows \<and>
   Scan plain_uri puppet0 (RowErr ErrNoRows) = (puppet0, None, [])"
proof -
  have h: "row_Scan (RowErr ErrNoRows) = Inl ErrNoRows" by simp
  show ?thesis using h Scan_failure_atomic [OF h, of plain_uri puppet0] by simp
qed

lemma zeroTime_not_positive: "\<not> 0 <s unixSec zeroTime"
  by (simp add: zeroTime_def word_sless_alt)

lemma time_Unix_neq_zeroTime: "0 <s v \<Longrightarrow> time_Unix v \<noteq> zeroTime"
  using zeroTime_not_positive by (auto simp add: time_Unix_def zeroTime_def)

text \<open>
  C7 (as amended). When \<open>Scan\<close> decodes a row, \<open>LastSync\<close> becomes the backing value read
  as epoch seconds exactly when that value is greater than 0; for a backing value that is
  0, NULL or negative the field keeps what the receiver held. \<open>Get\<close> and \<open>GetAll\<close> scan
  into a fresh record, for which the field then is the zero timestamp, and is the zero
  timestamp only then.
\<close>

theorem Scan_LastSync:
  assumes "row_Scan row = Inr (username, r)"
  shows "LastSync (fst (Scan ops puppet row)) =
           (if 0 <s NullInt64_Int64 (c_last_sync r)
            then time_Unix (NullInt64_Int64 (c_last_sync r)) else LastSync puppet) \<and>
         LastSync (fst (Scan ops (New ops) row)) =
           (if 0 <s NullInt64_Int64 (c_last_sync r)
            then time_Unix (NullInt64_Int64 (c_last_sync r)) else zeroTime) \<and>
         (LastSync (fst (Scan ops (New ops) row)) = zeroTime) =
           (\<not> 0 <s NullInt64_Int64 (c_last_sync r))"
  using assms time_Unix_neq_zeroTime [of "NullInt64_Int64 (c_last_sync r)"]
  by (simp add: Scan_def Let_def New_def)

theorem Scan_LastSync_witness:
  "row_Scan (RowData (null_row\<lparr>c_username := Some ''1234567890'',
                               c_last_sync := Some 1700000000\<rparr>)) =
     Inr (''1234567890'', null_row\<lparr>c_username := Some ''1234567890'',
                                     c_last_sync := Some 1700000000\<rparr>) \<and>
   LastSync (fst (Scan plain_uri (New plain_uri)
      (RowData (null_row\<lparr>c_username := Some ''1234567890'',
                          c_last_sync := Some 1700000000\<rparr>)))) = time_Unix 1700000000"
proof -
  have h: "row_Scan (RowData (null_row\<lparr>c_username := Some ''1234567890'',
                               c_last_sync := Some 1700000000\<rparr>)) =
     Inr (''1234567890'', null_row\<lparr>c_username := Some ''1234567890'',
                                     c_last_sync := Some 1700000000\<rparr>)"
    by (simp add: null_row_def)
  show ?thesis
    using h Scan_LastSync [OF h, of plain_uri puppet0]
    by (simp add: NullInt64_Int64_def null_row_def word_sless_alt)
qed

text \<open>
  C7 as stated fails for a negative backing value: the test of the source is
  \<open>lastSync.Int64 > 0\<close>, so \<open>last_sync = -5\<close>, which is not 0, is not read as epoch
  seconds; the fresh record keeps the zero timestamp.
\<close>

theorem Scan_negative_last_sync_counterexample:
  "c_last_sync (null_row\<lparr>c_username := Some ''1234567890'', c_last_sync := Some (- 5)\<rparr>)
     = Some (- 5) \<and>
   (- 5 :: int64) \<noteq> 0 \<and>
   LastSync (fst (Scan plain_uri (New plain_uri)
      (RowData (null_row\<lparr>c_username := Some ''1234567890'', c_last_sync := Some (- 5)\<rparr>))))
     = zeroTime \<and>
   zeroTime \<noteq> time_Unix (- 5)"
  by (simp add: Scan_def Let_def null_row_def New_def NullInt64_Int64_def word_sless_alt
      zeroTime_def time_Unix_def)

section \<open>Properties of GetAll and GetAllWithCustomMXID\<close>

lemma scan_rows_fst:
  "fst (scan_rows ops rows puppets eff) =
     puppets @ map (\<lambda>row. fst (snd (Scan ops (New ops) row))) rows"
  by (induction rows arbitrary: puppets eff) (simp_all split: prod.splits)

lemma GetAll_NoFault:
  "fst (GetAll ops NoFault db) = map (decode_row ops) db"
  by (simp add: GetAll_def scan_rows_fst decode_row_def comp_def)

lemma GetAllWithCustomMXID_NoFault:
  "fst (GetAllWithCustomMXID ops NoFault db) =
     map (decode_row ops) (filter custom_mxid_nonempty db)"
  by (simp add: GetAllWithCustomMXID_def scan_rows_fst decode_row_def comp_def)

lemma GetAll_fault: "fault \<noteq> NoFault \<Longrightarrow> GetAll ops fault db = ([], [])"
  by (cases fault) (simp_all add: GetAll_def)

lemma GetAllWithCustomMXID_fault:
  "fault \<noteq> NoFault \<Longrightarrow> GetAllWithCustomMXID ops fault db = ([], [])"
  by (cases fault) (simp_all add: GetAllWithCustomMXID_def)

lemma decode_row_None: "(decode_row ops r = None) = isl (row_Scan (RowData r))"
  by (simp add: decode_row_def Scan_def Let_def split: option.splits sum.splits)

lemma decode_row_CustomMXID:
  "decode_row ops r = Some p \<Longrightarrow> (CustomMXID p \<noteq> []) = custom_mxid_nonempty r"
  by (auto simp add: decode_row_def Scan_def Let_def custom_mxid_nonempty_def
      NullString_String_def split: option.splits sum.splits)

lemma records_decode_filter:
  "records (map (decode_row ops) (filter custom_mxid_nonempty db)) =
     filter (\<lambda>p. CustomMXID p \<noteq> []) (records (map (decode_row ops) db))"
proof (induction db)
  case Nil
  show ?case by simp
next
  case (Cons r db)
  show ?case
  proof (cases "decode_row ops r")
    case None
    with Cons.IH show ?thesis by simp
  next
    case (Some p)
    with Cons.IH decode_row_CustomMXID [OF Some] show ?thesis by simp
  qed
qed

text \<open>
  C8. On every table, and whether the storage runs the two queries or fails them, the
  records \<open>GetAllWithCustomMXID\<close> returns are the records \<open>GetAll\<close> returns whose
  \<open>CustomMXID\<close> is not empty, in the same order: each one it returns has a non-empty
  \<open>CustomMXID\<close>, and each record of \<open>GetAll\<close> with a non-empty \<open>CustomMXID\<close> is among them.
\<close>

theorem GetAllWithCustomMXID_subset_of_GetAll:
  "records (fst (GetAllWithCustomMXID ops fault db)) =
     filter (\<lambda>p. CustomMXID p \<noteq> []) (records (fst (GetAll ops fault db))) \<and>
   set (records (fst (GetAllWithCustomMXID ops fault db))) =
     {p. p \<in> set (records (fst (GetAll ops fault db))) \<and> CustomMXID p \<noteq> []}"
proof -
  have eq: "records (fst (GetAllWithCustomMXID ops fault db)) =
     filter (\<lambda>p. CustomMXID p \<noteq> []) (records (fst (GetAll ops fault db)))"
  proof (cases "fault = NoFault")
    case True
    then show ?thesis
      by (simp add: GetAll_NoFault GetAllWithCustomMXID_NoFault records_decode_filter)
  next
    case False
    then show ?thesis by (simp add: GetAll_fault GetAllWithCustomMXID_fault)
  qed
  then show ?thesis by auto
qed

text \<open>
  C9. When the storage runs the query, the slice \<open>GetAll\<close> returns has one entry per
  stored row and the slice \<open>GetAllWithCustomMXID\<close> one entry per selected row, and the
  entry at a row's position is nil exactly when that row fails to decode: a failed row is
  not left out, so nil entries stand among the records.
\<close>

theorem failed_rows_yield_nil:
  "length (fst (GetAll ops NoFault db)) = length db \<and>
   (\<forall>i < length db.
      (fst (GetAll ops NoFault db) ! i = None) = isl (row_Scan (RowData (db ! i)))) \<and>
   length (fst (GetAllWithCustomMXID ops NoFault db)) =
     length (filter custom_mxid_nonempty db) \<and>
   (\<forall>j < length (filter custom_mxid_nonempty db).
      (fst (GetAllWithCustomMXID ops NoFault db) ! j = None) =
        isl (row_Scan (RowData (filter custom_mxid_nonempty db ! j))))"
  by (simp add: GetAll_NoFault GetAllWithCustomMXID_NoFault decode_row_None)

theorem failed_rows_yield_nil_witness:
  "(0 :: nat) < length table0 \<and> isl (row_Scan (RowData (table0 ! 0))) \<and>
   fst (GetAll plain_uri NoFault table0) ! 0 = None \<and>
   length (fst (GetAll plain_uri NoFault table0)) = 3 \<and>
   (0 :: nat) < length (filter custom_mxid_nonempty table0) \<and>
   isl (row_Scan (RowData (filter custom_mxid_nonempty table0 ! 0))) \<and>
   fst (GetAllWithCustomMXID plain_uri NoFault table0) ! 0 = None \<and>
   length (fst (GetAllWithCustomMXID plain_uri NoFault table0)) = 2"
proof -
  note t = failed_rows_yield_nil [of plain_uri table0]
  have len: "length table0 = 3" by (simp add: table0_def)
  have sel: "filter custom_mxid_nonempty table0 =
     [null_row\<lparr>c_custom_mxid := Some ''@a:example.org''\<rparr>,
      null_row\<lparr>c_username := Some ''222'', c_custom_mxid := Some ''@b:example.org''\<rparr>]"
    by (simp add: table0_def custom_mxid_nonempty_def null_row_def)
  have l0: "0 < length table0" using len by simp
  have l1: "0 < length (filter custom_mxid_nonempty table0)" using sel by simp
  have f0: "isl (row_Scan (RowData (table0 ! 0)))"
    by (simp add: table0_def null_row_def)
  have f1: "isl (row_Scan (RowData (filter custom_mxid_nonempty table0 ! 0)))"
    unfolding sel by (simp add: null_row_def)
  have a: "fst (GetAll plain_uri NoFault table0) ! 0 = None"
    using t l0 f0 by blast
  have b: "length (fst (GetAll plain_uri NoFault table0)) = 3"
    using t len by simp
  have c: "fst (GetAllWithCustomMXID plain_uri NoFault table0) ! 0 = None"
    using t l1 f1 by blast
  have d: "length (fst (GetAllWithCustomMXID plain_uri NoFault table0)) = 2"
    using t sel by simp
  show ?thesis using l0 f0 a b l1 f1 c d by blast
qed

section \<open>Insert followed by Get\<close>

lemma NameQuality_roundtrip: "ucast (scast (q :: int8) :: int64) = q"
  by (rule bit_word_eqI) (auto simp add: bit_simps)

lemma Time_roundtrip: "nsec t = 0 \<Longrightarrow> time_Unix (Time_Unix t) = t"
  by (simp add: time_Unix_def Time_Unix_def)

lemma JID_roundtrip: "Server j = DefaultUserServer \<Longrightarrow> NewJID (User j) DefaultUserServer = j"
  by (simp add: NewJID_def)

lemma Get_after_Insert:
  assumes "Server (JID puppet) = DefaultUserServer"
    and "filter (\<lambda>r. c_username r = Some (User (JID puppet))) db = []"
  shows "fst (Get ops NoFault (fst (snd (Insert ops puppet None db))) (JID puppet)) =
           decode_row ops (row_of_args (puppet_args ops puppet))"
  using assms
  by (simp add: Get_def Insert_def decode_row_def row_of_args_def puppet_args_def
       split: prod.splits)

lemma decode_inserted_row:
  assumes "Server (JID puppet) = DefaultUserServer"
  shows "decode_row ops (row_of_args (puppet_args ops puppet)) =
         Some (puppet\<lparr>AvatarURL := ParseContentURI ops (URI_String ops (AvatarURL puppet)),
                  LastSync := (if \<not> Time_IsZero (LastSync puppet) \<and> 0 <s Time_Unix (LastSync puppet)
                               then time_Unix (Time_Unix (LastSync puppet)) else zeroTime),
                  FirstActivityTs := 0,
                  LastActivityTs := 0\<rparr>)"
  using assms
  by (simp add: decode_row_def Scan_def Let_def row_of_args_def puppet_args_def New_def
      NullString_String_def NullInt64_Int64_def NullBool_Bool_def lastSyncTs_def
      NameQuality_roundtrip JID_roundtrip)

text \<open>
  C5 (as amended). Take a record whose \<open>JID\<close> domain is the default domain and a table
  with no row for its username, and let the storage execute the INSERT and the query.
  Then \<open>Insert\<close> followed by \<open>Get\<close> with the same identifier returns a record equal to the
  original in every field except four: \<open>FirstActivityTs\<close> and \<open>LastActivityTs\<close>, which read
  back as 0 (the INSERT does not write them); \<open>LastSync\<close>, which reads back as the original
  cut to whole epoch seconds when that count is greater than 0 and as the zero timestamp
  otherwise; and \<open>AvatarURL\<close>, which reads back as the parse of its serialisation.
  So the record read back equals the original when its activity fields are 0, its
  \<open>LastSync\<close> is zero or a whole number of seconds after the epoch, and its \<open>AvatarURL\<close>
  survives serialising and parsing.
\<close>

theorem Insert_then_Get:
  assumes "Server (JID puppet) = DefaultUserServer"
    and "\<forall>r \<in> set db. c_username r \<noteq> Some (User (JID puppet))"
  shows "fst (Get ops NoFault (fst (snd (Insert ops puppet None db))) (JID puppet)) =
           Some (puppet
             \<lparr>AvatarURL := ParseContentURI ops (URI_String ops (AvatarURL puppet)),
              LastSync :=
                (if \<not> Time_IsZero (LastSync puppet) \<and> 0 <s Time_Unix (LastSync puppet)
                 then time_Unix (Time_Unix (LastSync puppet)) else zeroTime),
              FirstActivityTs := 0,
              LastActivityTs := 0\<rparr>) \<and>
         (ParseContentURI ops (URI_String ops (AvatarURL puppet)) = AvatarURL puppet \<and>
          nsec (LastSync puppet) = 0 \<and>
          (Time_IsZero (LastSync puppet) \<or> 0 <s Time_Unix (LastSync puppet)) \<and>
          FirstActivityTs puppet = 0 \<and> LastActivityTs puppet = 0
          \<longrightarrow> fst (Get ops NoFault (fst (snd (Insert ops puppet None db))) (JID puppet)) =
                Some puppet)"
proof -
  have fresh: "filter (\<lambda>r. c_username r = Some (User (JID puppet))) db = []"
    using assms(2) by (simp add: filter_empty_conv)
  have got: "fst (Get ops NoFault (fst (snd (Insert ops puppet None db))) (JID puppet)) =
           Some (puppet
             \<lparr>AvatarURL := ParseContentURI ops (URI_String ops (AvatarURL puppet)),
              LastSync :=
                (if \<not> Time_IsZero (LastSync puppet) \<and> 0 <s Time_Unix (LastSync puppet)
                 then time_Unix (Time_Unix (LastSync puppet)) else zeroTime),
              FirstActivityTs := 0,
              LastActivityTs := 0\<rparr>)"
    using Get_after_Insert [OF assms(1) fresh] decode_inserted_row [OF assms(1)] by simp
  have same: "puppet
             \<lparr>AvatarURL := ParseContentURI ops (URI_String ops (AvatarURL puppet)),
              LastSync :=
                (if \<not> Time_IsZero (LastSync puppet) \<and> 0 <s Time_Unix (LastSync puppet)
                 then time_Unix (Time_Unix (LastSync puppet)) else zeroTime),
              FirstActivityTs := 0,
              LastActivityTs := 0\<rparr> = puppet"
    if "ParseContentURI ops (URI_String ops (AvatarURL puppet)) = AvatarURL puppet"
      and "nsec (LastSync puppet) = 0"
      and "Time_IsZero (LastSync puppet) \<or> 0 <s Time_Unix (LastSync puppet)"
      and "FirstActivityTs puppet = 0" and "LastActivityTs puppet = 0"
  proof -
    have "(if \<not> Time_IsZero (LastSync puppet) \<and> 0 <s Time_Unix (LastSync puppet)
           then time_Unix (Time_Unix (LastSync puppet)) else zeroTime) = LastSync puppet"
      using that(2,3) by (auto simp add: Time_roundtrip Time_IsZero_def zeroTime_def)
    then show ?thesis using that(1,4,5) by simp
  qed
  show ?thesis using got same by simp
qed

theorem Insert_then_Get_witness:
  "Server (JID puppet_alice) = DefaultUserServer \<and>
   ParseContentURI plain_uri (URI_String plain_uri (AvatarURL puppet_alice)) = AvatarURL puppet_alice \<and>
   nsec (LastSync puppet_alice) = 0 \<and>
   (Time_IsZero (LastSync puppet_alice) \<or> 0 <s Time_Unix (LastSync puppet_alice)) \<and>
   FirstActivityTs puppet_alice = 0 \<and> LastActivityTs puppet_alice = 0 \<and>
   fst (Get plain_uri NoFault (fst (snd (Insert plain_uri puppet_alice None []))) (JID puppet_alice)) =
     Some puppet_alice"
proof -
  have h1: "Server (JID puppet_alice) = DefaultUserServer"
    by (simp add: puppet_alice_def puppet0_def NewJID_def)
  have h2: "\<forall>r \<in> set ([] :: Database). c_username r \<noteq> Some (User (JID puppet_alice))"
    by simp
  have h3: "ParseContentURI plain_uri (URI_String plain_uri (AvatarURL puppet_alice)) = AvatarURL puppet_alice"
    by (simp add: plain_uri_def)
  have h4: "nsec (LastSync puppet_alice) = 0"
    by (simp add: puppet_alice_def time_Unix_def)
  have h5: "Time_IsZero (LastSync puppet_alice) \<or> 0 <s Time_Unix (LastSync puppet_alice)"
    by (simp add: puppet_alice_def time_Unix_def Time_Unix_def word_sless_alt)
  have h6: "FirstActivityTs puppet_alice = 0" and h7: "LastActivityTs puppet_alice = 0"
    by (simp_all add: puppet_alice_def puppet0_def New_def)
  show ?thesis
    using Insert_then_Get [OF h1 h2, of plain_uri] h1 h3 h4 h5 h6 h7 by blast
qed

text \<open>
  C5 as stated fails on the activity fields: a record holding
  \<open>FirstActivityTs = LastActivityTs = 1000\<close>, inserted into the empty table and read
  back, has both at 0, while its \<open>LastSync\<close> is the zero timestamp before and after.
\<close>

theorem Insert_then_Get_activity_counterexample:
  "Server (JID puppet_active) = DefaultUserServer \<and>
   fst (Get plain_uri NoFault (fst (snd (Insert plain_uri puppet_active None []))) (JID puppet_active)) =
     Some puppet0 \<and>
   LastSync puppet_active = zeroTime \<and> LastSync puppet0 = zeroTime \<and>
   FirstActivityTs puppet_active = 1000 \<and> FirstActivityTs puppet0 = 0 \<and>
   LastActivityTs puppet_active = 1000 \<and> LastActivityTs puppet0 = 0"
  by (simp add: puppet_active_def puppet0_def New_def NewJID_def Get_def Insert_def Scan_def Let_def
      puppet_args_def row_of_args_def plain_uri_def lastSyncTs_def Time_IsZero_def zeroTime_def
      NullString_String_def NullInt64_Int64_def NullBool_Bool_def)

section \<open>Properties of Update\<close>

lemma Update_table:
  "fst (snd (Update ops puppet None db)) =
     map (\<lambda>r. if c_username r = Some (User (JID puppet))
               then update_row (puppet_args ops puppet) r else r) db"
  by (simp add: Update_def puppet_args_def)

text \<open>
  C6 (as amended). When the storage executes the UPDATE, the record is unchanged, the
  table keeps its rows, and in every row whose username is the local part of the record's
  \<open>JID\<close> the twelve columns \<open>displayname\<close>, \<open>name_quality\<close>, \<open>name_set\<close>, \<open>avatar\<close>,
  \<open>avatar_url\<close>, \<open>avatar_set\<close>, \<open>last_sync\<close>, \<open>custom_mxid\<close>, \<open>access_token\<close>,
  \<open>next_batch\<close>, \<open>enable_presence\<close> and \<open>enable_receipts\<close> hold the record's fields, with
  \<open>last_sync\<close> 0 for a zero \<open>LastSync\<close> and its epoch seconds otherwise, as in \<open>Insert\<close>.
  The columns \<open>first_activity_ts\<close> and \<open>last_activity_ts\<close> of that row are left as stored,
  and every other row is left as it was.
\<close>

theorem Update_overwrites_profile_columns:
  assumes "Update ops puppet None db = (puppet', db', eff)" and "i < length db"
  shows "puppet' = puppet \<and> length db' = length db \<and>
    (c_username (db ! i) = Some (User (JID puppet)) \<longrightarrow>
       c_username (db' ! i) = Some (User (JID puppet)) \<and>
       c_displayname (db' ! i) = Some (Displayname puppet) \<and>
       c_name_quality (db' ! i) = Some (scast (NameQuality puppet)) \<and>
       c_name_set (db' ! i) = Some (NameSet puppet) \<and>
       c_avatar (db' ! i) = Some (Avatar puppet) \<and>
       c_avatar_url (db' ! i) = Some (URI_String ops (AvatarURL puppet)) \<and>
       c_avatar_set (db' ! i) = Some (AvatarSet puppet) \<and>
       c_last_sync (db' ! i) =
         Some (if Time_IsZero (LastSync puppet) then 0 else Time_Unix (LastSync puppet)) \<and>
       c_custom_mxid (db' ! i) = Some (CustomMXID puppet) \<and>
       c_access_token (db' ! i) = Some (AccessToken puppet) \<and>
       c_next_batch (db' ! i) = Some (NextBatch puppet) \<and>
       c_enable_presence (db' ! i) = Some (EnablePresence puppet) \<and>
       c_enable_receipts (db' ! i) = Some (EnableReceipts puppet) \<and>
       c_first_activity_ts (db' ! i) = c_first_activity_ts (db ! i) \<and>
       c_last_activity_ts (db' ! i) = c_last_activity_ts (db ! i)) \<and>
    (c_username (db ! i) \<noteq> Some (User (JID puppet)) \<longrightarrow> db' ! i = db ! i)"
proof -
  have p: "puppet' = puppet" using assms(1) by (simp add: Update_def split: prod.splits)
  have db': "db' = map (\<lambda>r. if c_username r = Some (User (JID puppet))
               then update_row (puppet_args ops puppet) r else r) db"
    using Update_table [of ops puppet db] assms(1) by simp
  show ?thesis
    using p assms(2) unfolding db'
    by (simp add: update_row_def puppet_args_def lastSyncTs_def)
qed

theorem Update_overwrites_profile_columns_witness:
  "Update plain_uri puppet_alice None [row_of_args (puppet_args plain_uri puppet0)] =
     (puppet_alice,
      [(row_of_args (puppet_args plain_uri puppet0))
         \<lparr>c_displayname := Some ''Alice'', c_name_quality := Some (- 1),
          c_last_sync := Some 1700000000\<rparr>],
      [Executed (UpdatePuppet (puppet_args plain_uri puppet_alice))]) \<and>
   (0 :: nat) < length [row_of_args (puppet_args plain_uri puppet0)] \<and>
   c_username ([row_of_args (puppet_args plain_uri puppet0)] ! 0) = Some (User (JID puppet_alice)) \<and>
   c_displayname ([(row_of_args (puppet_args plain_uri puppet0))
         \<lparr>c_displayname := Some ''Alice'', c_name_quality := Some (- 1),
          c_last_sync := Some 1700000000\<rparr>] ! 0) = Some (Displayname puppet_alice) \<and>
   c_last_sync ([(row_of_args (puppet_args plain_uri puppet0))
         \<lparr>c_displayname := Some ''Alice'', c_name_quality := Some (- 1),
          c_last_sync := Some 1700000000\<rparr>] ! 0) = Some (Time_Unix (LastSync puppet_alice))"
proof -
  have h1: "Update plain_uri puppet_alice None [row_of_args (puppet_args plain_uri puppet0)] =
     (puppet_alice,
      [(row_of_args (puppet_args plain_uri puppet0))
         \<lparr>c_displayname := Some ''Alice'', c_name_quality := Some (- 1),
          c_last_sync := Some 1700000000\<rparr>],
      [Executed (UpdatePuppet (puppet_args plain_uri puppet_alice))])"
    by (simp add: Update_def puppet_alice_def puppet0_def New_def NewJID_def puppet_args_def
        row_of_args_def update_row_def plain_uri_def lastSyncTs_def Time_IsZero_def
        Time_Unix_def time_Unix_def zeroTime_def)
  have h2: "(0 :: nat) < length [row_of_args (puppet_args plain_uri puppet0)]" by simp
  have h3: "c_username ([row_of_args (puppet_args plain_uri puppet0)] ! 0) =
              Some (User (JID puppet_alice))"
    by (simp add: puppet_alice_def puppet0_def puppet_args_def row_of_args_def)
  have h4: "\<not> Time_IsZero (LastSync puppet_alice)"
    by (simp add: puppet_alice_def Time_IsZero_def time_Unix_def)
  show ?thesis
    using Update_overwrites_profile_columns [OF h1 h2] h1 h2 h3 h4 by simp
qed

text \<open>
  C6 as stated fails on the activity columns, which are mutable and persisted but not in
  the SET list: for a record holding \<open>FirstActivityTs = LastActivityTs = 1000\<close> in memory
  (as after an \<open>UpdateActivityTs(1000)\<close> whose writes failed) and a stored row with both
  columns NULL, a successful \<open>Update\<close> leaves the row as it is, both columns still NULL.
\<close>

theorem Update_activity_counterexample:
  "Update plain_uri puppet_active None [row_of_args (puppet_args plain_uri puppet0)] =
     (puppet_active, [row_of_args (puppet_args plain_uri puppet0)],
      [Executed (UpdatePuppet (puppet_args plain_uri puppet_active))]) \<and>
   c_username (row_of_args (puppet_args plain_uri puppet0)) = Some (User (JID puppet_active)) \<and>
   c_last_activity_ts (row_of_args (puppet_args plain_uri puppet0)) = None \<and>
   c_first_activity_ts (row_of_args (puppet_args plain_uri puppet0)) = None \<and>
   LastActivityTs puppet_active = 1000 \<and> FirstActivityTs puppet_active = 1000"
  by (simp add: Update_def puppet_active_def puppet0_def New_def NewJID_def puppet_args_def
      row_of_args_def update_row_def plain_uri_def lastSyncTs_def Time_IsZero_def zeroTime_def)

end
